theory Spec2Isabelle
  imports Main
begin

section \<open>FlowCal: the scheduling engine of VibeCalendarScheduler\<close>

text \<open>
  A shallow embedding of the algorithmic part of the React component
  \<^verbatim>\<open>VibeCalendarScheduler\<close>: \<^verbatim>\<open>checkConflicts\<close>, \<^verbatim>\<open>getWorkWindow\<close>,
  \<^verbatim>\<open>generateAvailabilities\<close>, \<^verbatim>\<open>handleEdit\<close>, \<^verbatim>\<open>confirmDelete\<close>, \<^verbatim>\<open>handleAdd\<close>,
  the reminder interval callback and \<^verbatim>\<open>dismissReminder\<close>.  The component state
  (the \<^verbatim>\<open>useState\<close> cells) is a record that every handler takes and returns;
  the updater functions passed to the setters run in the order of the calls.

  What the model fixes: instants are integers (milliseconds since the epoch);
  \<^verbatim>\<open>duration\<close> and \<^verbatim>\<open>reminder\<close> are integers, \<^verbatim>\<open>buffer\<close> is an integer or
  missing; an id is a number or missing; date, time and zone strings are ones that
  Day.js resolves to a valid instant.
\<close>

subsection \<open>JavaScript values used as identifiers\<close>

text \<open>
  An event id is a number (\<^verbatim>\<open>Date.now()\<close>) or is missing (\<^verbatim>\<open>undefined\<close>: the draft
  of a new event and the candidate of the availability search carry no id);
  \<^verbatim>\<open>editEventId\<close> is \<^verbatim>\<open>null\<close> or an event's id.  \<^verbatim>\<open>===\<close> on these values is
  equality of the datatype; \<^verbatim>\<open>if (v)\<close> tests truthiness.
\<close>

datatype jsval = Undefined | Null | Num int

fun truthy :: "jsval \<Rightarrow> bool" where
  "truthy (Num n) = (n \<noteq> 0)"
| "truthy Undefined = False"
| "truthy Null = False"

subsection \<open>The Day.js operations the component calls\<close>

text \<open>
  A Day.js object is its instant (\<^verbatim>\<open>valueOf()\<close>, milliseconds since the epoch)
  together with the zone it was created in.  Day.js and its time-zone data are a
  library outside the repository, so the calendar operations are a parameter of
  the model: \<open>tz L s z\<close> is \<^verbatim>\<open>dayjs.tz(s, z)\<close>, \<open>hour L d h\<close> is \<^verbatim>\<open>d.hour(h)\<close>,
  \<open>minute L d m\<close> is \<^verbatim>\<open>d.minute(m)\<close>, \<open>add_cal L d n u\<close> is \<^verbatim>\<open>d.add(n, u)\<close> for
  the calendar units and \<open>format L d t\<close> is \<^verbatim>\<open>d.format(t)\<close>.  Adding minutes and
  comparing are arithmetic on the instant and are defined here.
\<close>

type_synonym dayjs = "int \<times> string"

datatype calunit = Day | Week | Month

record dayjs_lib =
  tz :: "string \<Rightarrow> string \<Rightarrow> dayjs"
  hour :: "dayjs \<Rightarrow> int \<Rightarrow> dayjs"
  minute :: "dayjs \<Rightarrow> int \<Rightarrow> dayjs"
  add_cal :: "dayjs \<Rightarrow> int \<Rightarrow> calunit \<Rightarrow> dayjs"
  format :: "dayjs \<Rightarrow> string \<Rightarrow> string"

definition valueOf :: "dayjs \<Rightarrow> int" where
  "valueOf d = fst d"

definition add_minute :: "dayjs \<Rightarrow> int \<Rightarrow> dayjs" where
  "add_minute d n = (fst d + n * 60000, snd d)"

definition subtract_minute :: "dayjs \<Rightarrow> int \<Rightarrow> dayjs" where
  "subtract_minute d n = (fst d - n * 60000, snd d)"

definition isBefore :: "dayjs \<Rightarrow> dayjs \<Rightarrow> bool" where
  "isBefore a b = (valueOf a < valueOf b)"

definition isAfter :: "dayjs \<Rightarrow> dayjs \<Rightarrow> bool" where
  "isAfter a b = (valueOf a > valueOf b)"

definition isSame :: "dayjs \<Rightarrow> dayjs \<Rightarrow> bool" where
  "isSame a b = (valueOf a = valueOf b)"

text \<open>
  \<open>format L d FORMAT_DEFAULT\<close> stands for the call \<^verbatim>\<open>d.format()\<close> without an
  argument.
\<close>

definition FORMAT_DEFAULT :: string where
  "FORMAT_DEFAULT = ''YYYY-MM-DDTHH:mm:ssZ''"

subsection \<open>Events, conflicts, reminders and the component state\<close>

text \<open>
  \<open>buffer\<close> is optional: \<open>None\<close> is an event object without the attribute.
  \<open>status\<close> is set by \<^verbatim>\<open>handleAdd\<close> only.  A missing string attribute is the
  empty string (both are falsy in the validation of \<^verbatim>\<open>handleAdd\<close>).
\<close>

record event =
  id_ev :: jsval
  title :: string
  date :: string
  time :: string
  duration :: int
  timezone :: string
  type_ev :: string
  attendees :: "string list"
  location :: string
  buffer :: "int option"
  description :: string
  repeat :: string
  reminder :: int
  status :: "string option"

record conflict =
  conflictWith :: string

record reminder_note =
  id_rem :: jsval
  message :: string
  event_rem :: event
  text_rem :: string

record state =
  events :: "event list"
  newEvent :: event
  conflicts :: "conflict list"
  availabilities :: "string list"
  showForm :: bool
  attendeeInput :: string
  editEventId :: jsval
  showDeleteConfirm :: bool
  eventToDelete :: "event option"
  reminders :: "reminder_note list"

subsection \<open>checkConflicts\<close>

text \<open>\<^verbatim>\<open>evt.buffer || 15\<close>: the default replaces a missing buffer and every falsy one.\<close>

definition buffer_or :: "int option \<Rightarrow> int \<Rightarrow> int" where
  "buffer_or b d = (case b of None \<Rightarrow> d | Some v \<Rightarrow> if v = 0 then d else v)"

definition startOf :: "dayjs_lib \<Rightarrow> event \<Rightarrow> dayjs" where
  "startOf L e = tz L (date e @ ''T'' @ time e) (timezone e)"

text \<open>
  \<^verbatim>\<open>start.add(testEvent.duration + testEvent.buffer, 'minute')\<close>: with the buffer
  missing the sum is \<^verbatim>\<open>NaN\<close> and the result an invalid date (\<open>None\<close>), which is
  after nothing.
\<close>

definition testEnd :: "dayjs_lib \<Rightarrow> event \<Rightarrow> dayjs option" where
  "testEnd L t = (case buffer t of None \<Rightarrow> None
                  | Some b \<Rightarrow> Some (add_minute (startOf L t) (duration t + b)))"

definition evtEnd :: "dayjs_lib \<Rightarrow> event \<Rightarrow> dayjs" where
  "evtEnd L evt = add_minute (startOf L evt) (duration evt + buffer_or (buffer evt) 15)"

definition isAfter_opt :: "dayjs option \<Rightarrow> dayjs \<Rightarrow> bool" where
  "isAfter_opt a b = (case a of None \<Rightarrow> False | Some d \<Rightarrow> isAfter d b)"

text \<open>The body of \<^verbatim>\<open>list.forEach\<close>, with \<open>conflictsList\<close> as accumulator.\<close>

primrec forEach_conflicts ::
  "dayjs_lib \<Rightarrow> event \<Rightarrow> event list \<Rightarrow> conflict list \<Rightarrow> conflict list" where
  "forEach_conflicts L testEvent [] conflictsList = conflictsList"
| "forEach_conflicts L testEvent (evt # rest) conflictsList =
     forEach_conflicts L testEvent rest
       (if id_ev evt = id_ev testEvent then conflictsList
        else if isBefore (startOf L testEvent) (evtEnd L evt)
                \<and> isAfter_opt (testEnd L testEvent) (startOf L evt)
             then conflictsList @ [\<lparr>conflictWith = title evt\<rparr>]
             else conflictsList)"

definition checkConflicts :: "dayjs_lib \<Rightarrow> event \<Rightarrow> event list \<Rightarrow> conflict list" where
  "checkConflicts L testEvent list = forEach_conflicts L testEvent list []"

subsection \<open>getWorkWindow and generateAvailabilities\<close>

definition getWorkWindow :: "dayjs_lib \<Rightarrow> event \<Rightarrow> string \<Rightarrow> dayjs \<times> dayjs" where
  "getWorkWindow L ne d =
     (minute L (hour L (tz L d (timezone ne)) 9) 0,
      minute L (hour L (tz L d (timezone ne)) 17) 0)"

text \<open>
  The candidate object of the availability search has five attributes only; the
  others (the id among them) are missing.
\<close>

definition candidate :: "string \<Rightarrow> string \<Rightarrow> int \<Rightarrow> int option \<Rightarrow> string \<Rightarrow> event" where
  "candidate d t dur buf z =
     \<lparr>id_ev = Undefined, title = [], date = d, time = t, duration = dur, timezone = z,
      type_ev = [], attendees = [], location = [], buffer = buf, description = [],
      repeat = [], reminder = 0, status = None\<rparr>"

function slot_loop ::
  "dayjs_lib \<Rightarrow> event \<Rightarrow> event list \<Rightarrow> string \<Rightarrow> dayjs \<Rightarrow> dayjs \<Rightarrow> string list \<Rightarrow> string list"
  where
  "slot_loop L ne evs d end cursor slots =
     (if isBefore (add_minute cursor (duration ne)) end
         \<or> isSame (add_minute cursor (duration ne)) end
      then
        let test = candidate d (format L cursor ''HH:mm'') (duration ne) (buffer ne) (timezone ne);
            slots' = (if checkConflicts L test evs = []
                      then slots @ [format L cursor ''HH:mm''] else slots)
        in if length slots' \<ge> 6 then slots'
           else slot_loop L ne evs d end (add_minute cursor 30) slots'
      else slots)"
  by pat_completeness auto
termination
  by (relation "measure (\<lambda>(L, ne, evs, d, end, cursor, slots).
        nat (fst end - fst cursor - duration ne * 60000 + 1))")
     (auto simp: isBefore_def isSame_def add_minute_def valueOf_def)

definition generateAvailabilities :: "dayjs_lib \<Rightarrow> state \<Rightarrow> string \<Rightarrow> string list" where
  "generateAvailabilities L s d =
     (let (start, end) = getWorkWindow L (newEvent s) d
      in slot_loop L (newEvent s) (events s) d end start [])"

subsection \<open>handleEdit, handleDelete, confirmDelete\<close>

text \<open>
  \<^verbatim>\<open>generateAvailabilities\<close> is the closure of the render in which the handler
  runs: it reads the draft and the events of the state before the handler.
\<close>

definition handleEdit :: "dayjs_lib \<Rightarrow> state \<Rightarrow> event \<Rightarrow> state" where
  "handleEdit L s ev =
     s\<lparr>editEventId := id_ev ev, showForm := True, newEvent := ev, conflicts := [],
       availabilities := generateAvailabilities L s (date ev)\<rparr>"


definition handleDelete :: "state \<Rightarrow> event \<Rightarrow> state" where
  "handleDelete s ev = s\<lparr>eventToDelete := Some ev, showDeleteConfirm := True\<rparr>"

text \<open>
  The ways a handler ends without committing.  The source has no exceptions of its
  own: \<open>ValidationError\<close> is the silent \<^verbatim>\<open>return\<close> on a missing field,
  \<open>ConflictError\<close> the \<^verbatim>\<open>return\<close> after \<^verbatim>\<open>setConflicts(errs)\<close>, \<open>TypeError\<close> is
  what JavaScript throws on \<^verbatim>\<open>eventToDelete.id\<close> when \<^verbatim>\<open>eventToDelete\<close> is
  \<^verbatim>\<open>null\<close>.  \<open>NotFoundError\<close> is the error kind of the specification; no path of
  the source produces it.
\<close>

datatype error = ValidationError | ConflictError "conflict list" | NotFoundError | TypeError

definition confirmDelete :: "state \<Rightarrow> error + state" where
  "confirmDelete s =
     (case eventToDelete s of
        None \<Rightarrow> Inl TypeError
      | Some d \<Rightarrow>
          Inr (let s1 = s\<lparr>events := filter (\<lambda>e. id_ev e \<noteq> id_ev d) (events s),
                           showDeleteConfirm := False, eventToDelete := None\<rparr>
               in if editEventId s = id_ev d
                  then s1\<lparr>showForm := False, editEventId := Null\<rparr> else s1))"

subsection \<open>handleAdd\<close>

text \<open>
  \<^verbatim>\<open>Date.now()\<close> is read once for the base event and once for every occurrence
  pushed; \<open>clock k\<close> is the \<open>k\<close>-th reading of one run of the handler (the
  occurrences are pushed for every \<open>i\<close> or for none, so the reading of occurrence
  \<open>i\<close> is \<open>clock i\<close>).
\<close>

definition nextDate :: "dayjs_lib \<Rightarrow> event \<Rightarrow> dayjs \<Rightarrow> int \<Rightarrow> dayjs option" where
  "nextDate L ne base i =
     (let n0 = None;
          n1 = (if repeat ne = ''daily'' then Some (add_cal L base i Day) else n0);
          n2 = (if repeat ne = ''weekly'' then Some (add_cal L base i Week) else n1);
          n3 = (if repeat ne = ''monthly'' then Some (add_cal L base i Month) else n2)
      in n3)"

primrec for_occurrences ::
  "dayjs_lib \<Rightarrow> (nat \<Rightarrow> int) \<Rightarrow> event \<Rightarrow> event \<Rightarrow> dayjs \<Rightarrow> int list \<Rightarrow> event list \<Rightarrow> event list"
  where
  "for_occurrences L clock ne toAdd base [] newEvents = newEvents"
| "for_occurrences L clock ne toAdd base (i # is) newEvents =
     for_occurrences L clock ne toAdd base is
       (case nextDate L ne base i of
          None \<Rightarrow> newEvents
        | Some nd \<Rightarrow>
            newEvents @ [toAdd\<lparr>id_ev := Num (clock (nat i) + i),
                                date := format L nd ''YYYY-MM-DD''\<rparr>])"

definition series :: "dayjs_lib \<Rightarrow> (nat \<Rightarrow> int) \<Rightarrow> event \<Rightarrow> event list" where
  "series L clock ne =
     (let toAdd = ne\<lparr>id_ev := Num (clock 0), status := Some ''confirmed''\<rparr>;
          newEvents = [toAdd]
      in if repeat ne \<noteq> ''none''
         then for_occurrences L clock ne toAdd (startOf L ne) [1, 2, 3, 4, 5] newEvents
         else newEvents)"

text \<open>
  How a run of \<^verbatim>\<open>handleAdd\<close> ends: rejected, through the edit branch, or through
  the add branch (\<open>Added toAdd\<close>: \<^verbatim>\<open>onEventAdd\<close>, when given, is called with
  \<open>toAdd\<close>).
\<close>

datatype outcome = Rejected error | Edited | Added event

definition closeForm :: "state \<Rightarrow> state" where
  "closeForm s =
     s\<lparr>showForm := False, newEvent := (newEvent s)\<lparr>title := [], attendees := []\<rparr>,
       conflicts := [], attendeeInput := []\<rparr>"

definition handleAdd :: "dayjs_lib \<Rightarrow> (nat \<Rightarrow> int) \<Rightarrow> state \<Rightarrow> outcome \<times> state" where
  "handleAdd L clock s =
     (if title (newEvent s) = [] \<or> date (newEvent s) = [] \<or> time (newEvent s) = []
      then (Rejected ValidationError, s)
      else
        let errs = checkConflicts L (newEvent s)
                     (filter (\<lambda>e. id_ev e \<noteq> editEventId s) (events s))
        in if errs \<noteq> [] then (Rejected (ConflictError errs), s\<lparr>conflicts := errs\<rparr>)
           else if truthy (editEventId s)
           then (Edited,
                 closeForm
                   (s\<lparr>events := map (\<lambda>e. if id_ev e = editEventId s
                                          then (newEvent s)\<lparr>id_ev := editEventId s\<rparr> else e)
                                     (events s),
                      editEventId := Null\<rparr>))
           else (Added ((newEvent s)\<lparr>id_ev := Num (clock 0), status := Some ''confirmed''\<rparr>),
                 closeForm (s\<lparr>events := events s @ series L clock (newEvent s)\<rparr>)))"

subsection \<open>The reminder interval callback and dismissReminder\<close>

function show_digits :: "int \<Rightarrow> string" where
  "show_digits n =
     (if n < 10 then [char_of (48 + n)]
      else show_digits (n div 10) @ [char_of (48 + n mod 10)])"
  by pat_completeness auto
termination
  by (relation "measure nat") auto

definition show_int :: "int \<Rightarrow> string" where
  "show_int i = (if i < 0 then CHR ''-'' # show_digits (- i) else show_digits i)"

definition reminder_text :: "event \<Rightarrow> string" where
  "reminder_text ev =
     ''Reminder: '' @ [CHR 0x22] @ title ev @ [CHR 0x22] @ '' at '' @ time ev @
     '' ('' @ date ev @ '') in '' @ show_int (reminder ev) @ '' min''"

definition remindAt :: "dayjs_lib \<Rightarrow> event \<Rightarrow> dayjs" where
  "remindAt L ev = subtract_minute (startOf L ev) (reminder ev)"

definition note_of :: "dayjs_lib \<Rightarrow> event \<Rightarrow> reminder_note" where
  "note_of L ev =
     \<lparr>id_rem = id_ev ev, message = format L (remindAt L ev) FORMAT_DEFAULT,
      event_rem = ev, text_rem = reminder_text ev\<rparr>"

definition already :: "dayjs_lib \<Rightarrow> reminder_note list \<Rightarrow> event \<Rightarrow> bool" where
  "already L rems ev =
     list_ex (\<lambda>r. id_rem r = id_ev ev \<and> message r = format L (remindAt L ev) FORMAT_DEFAULT)
       rems"

text \<open>
  One run of the interval callback at instant \<open>now\<close>.  \<open>rems\<close> is the list
  \<^verbatim>\<open>reminders\<close> of the render that installed the callback: it does not change
  during \<^verbatim>\<open>events.forEach\<close>; every \<^verbatim>\<open>setReminders\<close> appends one notification.
  \<open>tick\<close> is the list of the notifications appended, in order.
\<close>

primrec tick :: "dayjs_lib \<Rightarrow> dayjs \<Rightarrow> reminder_note list \<Rightarrow> event list \<Rightarrow> reminder_note list"
  where
  "tick L now rems [] = []"
| "tick L now rems (ev # rest) =
     (if reminder ev = 0 then []
      else if isAfter now (remindAt L ev) \<and> isBefore now (startOf L ev)
              \<and> \<not> already L rems ev
           then [note_of L ev] else [])
     @ tick L now rems rest"

definition tick_state :: "dayjs_lib \<Rightarrow> dayjs \<Rightarrow> state \<Rightarrow> state" where
  "tick_state L now s = s\<lparr>reminders := reminders s @ tick L now (reminders s) (events s)\<rparr>"

definition dismissReminder :: "state \<Rightarrow> jsval \<Rightarrow> string \<Rightarrow> state" where
  "dismissReminder s i m =
     s\<lparr>reminders := filter (\<lambda>r. \<not> (id_rem r = i \<and> message r = m)) (reminders s)\<rparr>"

subsection \<open>An instance of the library: one zone, no offset\<close>

text \<open>
  The calendar operations in a zone whose offset is always zero (UTC), for
  evaluating the component on concrete events.  Dates are \<^verbatim>\<open>YYYY-MM-DD\<close>, times
  \<^verbatim>\<open>HH:mm\<close>; day numbers count from 1970-01-01 in the proleptic Gregorian calendar.
  An object of \<^verbatim>\<open>dayjs.tz\<close> with offset zero is in UTC mode, where \<^verbatim>\<open>format()\<close>
  without an argument ends in the letter \<^verbatim>\<open>Z\<close>.
\<close>

definition digits_val :: "string \<Rightarrow> int" where
  "digits_val s = foldl (\<lambda>n c. 10 * n + (of_char c - 48)) 0 s"

definition days_from_civil :: "int \<Rightarrow> int \<Rightarrow> int \<Rightarrow> int" where
  "days_from_civil y m d =
     (let y' = (if m \<le> 2 then y - 1 else y);
          era = y' div 400;
          yoe = y' - era * 400;
          doy = (153 * (if m > 2 then m - 3 else m + 9) + 2) div 5 + d - 1;
          doe = yoe * 365 + yoe div 4 - yoe div 100 + doy
      in era * 146097 + doe - 719468)"

definition civil_from_days :: "int \<Rightarrow> int \<times> int \<times> int" where
  "civil_from_days z =
     (let z' = z + 719468;
          era = z' div 146097;
          doe = z' - era * 146097;
          yoe = (doe - doe div 1460 + doe div 36524 - doe div 146096) div 365;
          doy = doe - (365 * yoe + yoe div 4 - yoe div 100);
          mp = (5 * doy + 2) div 153;
          d = doy - (153 * mp + 2) div 5 + 1;
          m = (if mp < 10 then mp + 3 else mp - 9)
      in ((if m \<le> 2 then yoe + era * 400 + 1 else yoe + era * 400), m, d))"

definition pad :: "nat \<Rightarrow> int \<Rightarrow> string" where
  "pad w n = (let s = show_int n in replicate (w - length s) CHR ''0'' @ s)"

definition utc_tz :: "string \<Rightarrow> string \<Rightarrow> dayjs" where
  "utc_tz s z =
     (let days = days_from_civil (digits_val (take 4 s)) (digits_val (take 2 (drop 5 s)))
                   (digits_val (take 2 (drop 8 s)));
          hh = digits_val (take 2 (drop 11 s));
          mm = digits_val (take 2 (drop 14 s))
      in (((days * 24 + hh) * 60 + mm) * 60000, z))"

definition utc_hour :: "dayjs \<Rightarrow> int \<Rightarrow> dayjs" where
  "utc_hour d h = (fst d - fst d mod 86400000 + h * 3600000 + fst d mod 3600000, snd d)"

definition utc_minute :: "dayjs \<Rightarrow> int \<Rightarrow> dayjs" where
  "utc_minute d m = (fst d - fst d mod 3600000 + m * 60000 + fst d mod 60000, snd d)"

definition days_in_month :: "int \<Rightarrow> int \<Rightarrow> int" where
  "days_in_month y m = days_from_civil (if m = 12 then y + 1 else y) (if m = 12 then 1 else m + 1) 1
                       - days_from_civil y m 1"

definition utc_add_cal :: "dayjs \<Rightarrow> int \<Rightarrow> calunit \<Rightarrow> dayjs" where
  "utc_add_cal d n u =
     (case u of
        Day \<Rightarrow> (fst d + n * 86400000, snd d)
      | Week \<Rightarrow> (fst d + n * 7 * 86400000, snd d)
      | Month \<Rightarrow>
          (case civil_from_days (fst d div 86400000) of
             (y, m, dd) \<Rightarrow>
               let k = y * 12 + (m - 1) + n;
                   y' = k div 12;
                   m' = k mod 12 + 1
               in (days_from_civil y' m' (min dd (days_in_month y' m')) * 86400000
                     + fst d mod 86400000, snd d)))"

definition utc_format :: "dayjs \<Rightarrow> string \<Rightarrow> string" where
  "utc_format d t =
     (let hm = pad 2 (fst d mod 86400000 div 3600000) @ '':'' @ pad 2 (fst d mod 3600000 div 60000);
          ymd = (case civil_from_days (fst d div 86400000) of
                   (y, m, dd) \<Rightarrow> pad 4 y @ ''-'' @ pad 2 m @ ''-'' @ pad 2 dd)
      in if t = ''HH:mm'' then hm
         else if t = ''YYYY-MM-DD'' then ymd
         else ymd @ ''T'' @ hm @ '':'' @ pad 2 (fst d mod 60000 div 1000) @ ''Z'')"

definition utc :: dayjs_lib where
  "utc = \<lparr>tz = utc_tz, hour = utc_hour, minute = utc_minute, add_cal = utc_add_cal,
          format = utc_format\<rparr>"

subsection \<open>An instance of the library with two zones\<close>

text \<open>
  \<^verbatim>\<open>Europe/Paris\<close> at its winter offset of one hour, every other zone at offset
  zero; for events in January.  The operations are those of the instance above on
  the local wall-clock time; \<^verbatim>\<open>format()\<close> without an argument ends in the
  offset \<^verbatim>\<open>+01:00\<close> for Paris.
\<close>

definition zone_offset :: "string \<Rightarrow> int" where
  "zone_offset z = (if z = ''Europe/Paris'' then 60 else 0)"

definition to_local :: "dayjs \<Rightarrow> dayjs" where
  "to_local d = (fst d + zone_offset (snd d) * 60000, snd d)"

definition from_local :: "dayjs \<Rightarrow> dayjs" where
  "from_local d = (fst d - zone_offset (snd d) * 60000, snd d)"

definition zoned_tz :: "string \<Rightarrow> string \<Rightarrow> dayjs" where
  "zoned_tz s z = from_local (utc_tz s z)"

definition zoned_hour :: "dayjs \<Rightarrow> int \<Rightarrow> dayjs" where
  "zoned_hour d h = from_local (utc_hour (to_local d) h)"

definition zoned_minute :: "dayjs \<Rightarrow> int \<Rightarrow> dayjs" where
  "zoned_minute d m = from_local (utc_minute (to_local d) m)"

definition zoned_add_cal :: "dayjs \<Rightarrow> int \<Rightarrow> calunit \<Rightarrow> dayjs" where
  "zoned_add_cal d n u = from_local (utc_add_cal (to_local d) n u)"

definition zoned_format :: "dayjs \<Rightarrow> string \<Rightarrow> string" where
  "zoned_format d t =
     (if zone_offset (snd d) = 0 \<or> t = ''HH:mm'' \<or> t = ''YYYY-MM-DD''
      then utc_format (to_local d) t
      else butlast (utc_format (to_local d) t) @ ''+01:00'')"

definition zoned :: dayjs_lib where
  "zoned = \<lparr>tz = zoned_tz, hour = zoned_hour, minute = zoned_minute, add_cal = zoned_add_cal,
            format = zoned_format\<rparr>"

subsection \<open>Auxiliary notions for the statements\<close>

text \<open>
  \<open>hits L t e\<close>: the iteration of \<^verbatim>\<open>checkConflicts\<close> for the stored event \<open>e\<close>
  pushes an entry.
\<close>

definition hits :: "dayjs_lib \<Rightarrow> event \<Rightarrow> event \<Rightarrow> bool" where
  "hits L t e = (id_ev e \<noteq> id_ev t \<and> isBefore (startOf L t) (evtEnd L e)
                  \<and> isAfter_opt (testEnd L t) (startOf L e))"

text \<open>Events in the zone \<^verbatim>\<open>UTC\<close>, for the concrete evaluations.\<close>

definition mkEvent ::
  "jsval \<Rightarrow> string \<Rightarrow> string \<Rightarrow> string \<Rightarrow> int \<Rightarrow> int option \<Rightarrow> string \<Rightarrow> int \<Rightarrow> event" where
  "mkEvent i ttl d t dur buf rep rem =
     \<lparr>id_ev = i, title = ttl, date = d, time = t, duration = dur, timezone = ''UTC'',
      type_ev = ''meeting'', attendees = [], location = [], buffer = buf, description = [],
      repeat = rep, reminder = rem, status = Some ''confirmed''\<rparr>"

text \<open>
  \<open>due L now rems ev\<close>: the iteration of the interval callback for the event
  \<open>ev\<close> calls \<^verbatim>\<open>setReminders\<close>.  \<open>key r\<close>: what the duplicate test and
  \<^verbatim>\<open>dismissReminder\<close> compare, the id and the formatted remind-at instant.
\<close>

definition due :: "dayjs_lib \<Rightarrow> dayjs \<Rightarrow> reminder_note list \<Rightarrow> event \<Rightarrow> bool" where
  "due L now rems ev = (reminder ev \<noteq> 0 \<and> isAfter now (remindAt L ev)
                         \<and> isBefore now (startOf L ev) \<and> \<not> already L rems ev)"

definition key :: "reminder_note \<Rightarrow> jsval \<times> string" where
  "key r = (id_rem r, message r)"

text \<open>A component state with the given events, draft and \<^verbatim>\<open>editEventId\<close>.\<close>

definition mkState :: "event list \<Rightarrow> event \<Rightarrow> jsval \<Rightarrow> state" where
  "mkState evs ne eid =
     \<lparr>events = evs, newEvent = ne, conflicts = [], availabilities = [], showForm = True,
      attendeeInput = [], editEventId = eid, showDeleteConfirm = False, eventToDelete = None,
      reminders = []\<rparr>"

text \<open>
  \<open>repeat_unit r\<close>: the calendar unit the three tests of the expansion loop select
  for the value \<open>r\<close> of \<^verbatim>\<open>repeat\<close>, if any.  \<open>occurrence L clock ne u i\<close>: the
  object pushed in iteration \<open>i\<close>.  \<open>fixed_clock t\<close>: every reading of
  \<^verbatim>\<open>Date.now()\<close> gives \<open>t\<close>.
\<close>

definition repeat_unit :: "string \<Rightarrow> calunit option" where
  "repeat_unit r = (if r = ''monthly'' then Some Month else if r = ''weekly'' then Some Week
                    else if r = ''daily'' then Some Day else None)"

definition occurrence :: "dayjs_lib \<Rightarrow> (nat \<Rightarrow> int) \<Rightarrow> event \<Rightarrow> calunit \<Rightarrow> int \<Rightarrow> event" where
  "occurrence L clock ne u i =
     ne\<lparr>id_ev := Num (clock (nat i) + i), status := Some ''confirmed'',
        date := format L (add_cal L (startOf L ne) i u) ''YYYY-MM-DD''\<rparr>"

definition fixed_clock :: "int \<Rightarrow> nat \<Rightarrow> int" where
  "fixed_clock t k = t"


text \<open>
  The loop of \<^verbatim>\<open>generateAvailabilities\<close> once more, collecting the cursors
  themselves instead of their \<^verbatim>\<open>HH:mm\<close> strings: the instants behind the strings
  returned (lemma \<open>generateAvailabilities_map\<close> below).
\<close>

function slot_cursors ::
  "dayjs_lib \<Rightarrow> event \<Rightarrow> event list \<Rightarrow> string \<Rightarrow> dayjs \<Rightarrow> dayjs \<Rightarrow> dayjs list \<Rightarrow> dayjs list"
  where
  "slot_cursors L ne evs d end cursor cs =
     (if isBefore (add_minute cursor (duration ne)) end
         \<or> isSame (add_minute cursor (duration ne)) end
      then
        let test = candidate d (format L cursor ''HH:mm'') (duration ne) (buffer ne) (timezone ne);
            cs' = (if checkConflicts L test evs = [] then cs @ [cursor] else cs)
        in if length cs' \<ge> 6 then cs'
           else slot_cursors L ne evs d end (add_minute cursor 30) cs'
      else cs)"
  by pat_completeness auto
termination
  by (relation "measure (\<lambda>(L, ne, evs, d, end, cursor, slots).
        nat (fst end - fst cursor - duration ne * 60000 + 1))")
     (auto simp: isBefore_def isSame_def add_minute_def valueOf_def)

definition slotCursors :: "dayjs_lib \<Rightarrow> state \<Rightarrow> string \<Rightarrow> dayjs list" where
  "slotCursors L s d =
     (let (start, end) = getWorkWindow L (newEvent s) d
      in slot_cursors L (newEvent s) (events s) d end start [])"

declare slot_loop.simps [simp del]
declare slot_cursors.simps [simp del]

text \<open>
  \<open>in_window s0 e0 dur c\<close>: the cursor \<open>c\<close> is a whole number of 30-minute steps
  after \<open>s0\<close> and an event of \<open>dur\<close> minutes that starts at \<open>c\<close> ends by \<open>e0\<close>.
\<close>

definition in_window :: "int \<Rightarrow> int \<Rightarrow> int \<Rightarrow> dayjs \<Rightarrow> bool" where
  "in_window s0 e0 dur c = (s0 \<le> valueOf c \<and> valueOf c + dur * 60000 \<le> e0
                            \<and> (\<exists>k\<ge>0. valueOf c = s0 + k * (30 * 60000)))"

text \<open>
  \<open>instant_key L r\<close>: the id of a notification with the remind-at instant of the
  event it holds.
\<close>

definition instant_key :: "dayjs_lib \<Rightarrow> reminder_note \<Rightarrow> jsval \<times> int" where
  "instant_key L r = (id_rem r, valueOf (remindAt L (event_rem r)))"

text \<open>
  Two runs of the component.  In \<open>collision_run\<close> a weekly event with a reminder
  of 60 minutes is added at clock reading 1704000000000 (its third occurrence, on
  2024-01-22 at 10:00, gets the id 1704000000003), the form is filled in with an
  event on 2024-01-22 at 09:30 with a reminder of 30 minutes, which is added at
  clock reading 1704000000003, and the callback runs on 2024-01-22 at 09:10.
  In \<open>rezoned_run\<close> the callback runs at 09:55 for an event at 10:00 UTC with a
  reminder of 10 minutes; the event is then edited in the form to 11:00 in
  \<^verbatim>\<open>Europe/Paris\<close> (the same instant) and saved, and the callback runs again at
  09:56.
\<close>

definition collision_run :: state where
  "collision_run =
     (let s0 = mkState [] (mkEvent Undefined ''W'' ''2024-01-01'' ''10:00'' 60 (Some 15) ''weekly'' 60)
                 Null;
          s1 = snd (handleAdd utc (fixed_clock 1704000000000) s0);
          s2 = s1\<lparr>newEvent := mkEvent Undefined ''B'' ''2024-01-22'' ''09:30'' 10 (Some 15) ''none'' 30\<rparr>;
          s3 = snd (handleAdd utc (fixed_clock 1704000000003) s2)
      in tick_state utc (1705914600000, ''UTC'') s3)"

definition rezoned_run :: state where
  "rezoned_run =
     (let e1 = mkEvent (Num 1) ''E1'' ''2024-01-01'' ''10:00'' 60 (Some 15) ''none'' 10;
          s0 = mkState [e1] (mkEvent Undefined [] ''2024-01-01'' ''09:00'' 60 (Some 15) ''none'' 0) Null;
          s1 = tick_state zoned (1704102900000, ''UTC'') s0;
          s2 = handleEdit zoned s1 e1;
          s3 = s2\<lparr>newEvent := (newEvent s2)\<lparr>time := ''11:00'', timezone := ''Europe/Paris''\<rparr>\<rparr>;
          s4 = snd (handleAdd zoned (fixed_clock 1704102930000) s3)
      in tick_state zoned (1704102960000, ''UTC'') s4)"

section \<open>Properties\<close>

subsection \<open>checkConflicts as a filter\<close>





lemma hits_half_open:
  assumes "buffer t = Some b" and "id_ev e \<noteq> id_ev t" and "buffer e \<noteq> Some 0"
  shows "hits L t e \<longleftrightarrow>
           valueOf (startOf L t)
             < valueOf (startOf L e)
               + (duration e + (case buffer e of None \<Rightarrow> 15 | Some v \<Rightarrow> v)) * 60000
           \<and> valueOf (startOf L t) + (duration t + b) * 60000 > valueOf (startOf L e)"
proof -
  have "buffer_or (buffer e) 15 = (case buffer e of None \<Rightarrow> 15 | Some v \<Rightarrow> v)"
    using assms(3) by (simp add: buffer_or_def split: option.splits)
  then show ?thesis
    using assms(1,2)
    by (simp add: hits_def isBefore_def isAfter_def isAfter_opt_def testEnd_def evtEnd_def
          add_minute_def valueOf_def)
qed

subsection \<open>C2: the buffer of an existing event\<close>

text \<open>
  C2 (the code departs from the claim).  An existing event whose buffer is
  explicitly 0 is not checked with the window \<open>[start, start + duration)\<close>:
  \<^verbatim>\<open>evt.buffer || 15\<close> replaces the 0 by 15.  The stored event runs 10:00-11:00
  with buffer 0; its window in \<^verbatim>\<open>checkConflicts\<close> ends 75 minutes after its start,
  and a candidate that starts at 11:00 is reported as conflicting with it.
\<close>

theorem checkConflicts_zero_buffer_defaulted:
  "valueOf (evtEnd utc (mkEvent (Num 1) ''E1'' ''2024-01-01'' ''10:00'' 60 (Some 0) ''none'' 0))
     = valueOf (startOf utc (mkEvent (Num 1) ''E1'' ''2024-01-01'' ''10:00'' 60 (Some 0) ''none'' 0))
       + 75 * 60000
   \<and> checkConflicts utc (candidate ''2024-01-01'' ''11:00'' 30 (Some 0) ''UTC'')
        [mkEvent (Num 1) ''E1'' ''2024-01-01'' ''10:00'' 60 (Some 0) ''none'' 0]
      = [\<lparr>conflictWith = ''E1''\<rparr>]"
  by code_simp

subsection \<open>C4: the half-open intersection test\<close>

text \<open>
  Where the candidate has a buffer and the stored event's buffer is missing or not
  0, the test of \<^verbatim>\<open>checkConflicts\<close> is the half-open one (lemma
  \<open>hits_half_open\<close>; an event with the candidate's own id is left out, as the
  specification asks).  The stored event 10:00, 60 minutes, buffer 15 has the
  window 10:00-11:15: a candidate at 11:00 conflicts with it, a candidate at 11:15
  does not.
\<close>

lemma checkConflicts_scenario:
  "checkConflicts utc (candidate ''2024-01-01'' ''11:00'' 30 (Some 15) ''UTC'')
     [mkEvent (Num 1) ''E1'' ''2024-01-01'' ''10:00'' 60 (Some 15) ''none'' 0]
     = [\<lparr>conflictWith = ''E1''\<rparr>]
   \<and> checkConflicts utc (candidate ''2024-01-01'' ''11:15'' 30 (Some 15) ''UTC'')
     [mkEvent (Num 1) ''E1'' ''2024-01-01'' ''10:00'' 60 (Some 15) ''none'' 0]
     = []"
  by code_simp

text \<open>
  C4 (the code departs from the claim).  The claim is that a conflict is reported
  exactly when \<open>candidate.start < other.end\<close> and \<open>candidate.end > other.start\<close>
  on the windows \<open>[start, start + duration + buffer)\<close>, and never when the
  windows only touch.  In two places \<^verbatim>\<open>checkConflicts\<close> does something else.

  \<^item> The stored event E1 (10:00, 60 minutes, buffer 0) has the window
    10:00-11:00.  The candidate starts at 11:00, exactly where that window ends,
    and is reported as conflicting with E1: \<^verbatim>\<open>evt.buffer || 15\<close> has replaced the
    buffer 0 by 15.

  \<^item> The candidate E2 (10:15, 60 minutes) has no buffer, as the draft has after
    \<^verbatim>\<open>handleEdit\<close> of a stored event without one.  It starts before the end
    11:15 of the stored event E1 (10:00, 60 minutes, buffer 15), and it ends after
    10:00 whatever its buffer is taken to be; nothing is reported, because
    \<^verbatim>\<open>test.duration + test.buffer\<close> is not a number and no instant is after
    an invalid one.
\<close>

theorem checkConflicts_window_departs:
  "valueOf (startOf utc (candidate ''2024-01-01'' ''11:00'' 45 (Some 10) ''UTC''))
     = valueOf (startOf utc (mkEvent (Num 1) ''E1'' ''2024-01-01'' ''10:00'' 60 (Some 0) ''none'' 0))
       + (60 + 0) * 60000
   \<and> checkConflicts utc (candidate ''2024-01-01'' ''11:00'' 45 (Some 10) ''UTC'')
        [mkEvent (Num 1) ''E1'' ''2024-01-01'' ''10:00'' 60 (Some 0) ''none'' 0]
      = [\<lparr>conflictWith = ''E1''\<rparr>]
   \<and> valueOf (startOf utc (mkEvent (Num 2) ''E2'' ''2024-01-01'' ''10:15'' 60 None ''none'' 0))
     < valueOf (startOf utc (mkEvent (Num 1) ''E1'' ''2024-01-01'' ''10:00'' 60 (Some 15) ''none'' 0))
       + (60 + 15) * 60000
   \<and> valueOf (startOf utc (mkEvent (Num 2) ''E2'' ''2024-01-01'' ''10:15'' 60 None ''none'' 0))
       + 60 * 60000
     > valueOf (startOf utc (mkEvent (Num 1) ''E1'' ''2024-01-01'' ''10:00'' 60 (Some 15) ''none'' 0))
   \<and> checkConflicts utc (mkEvent (Num 2) ''E2'' ''2024-01-01'' ''10:15'' 60 None ''none'' 0)
        [mkEvent (Num 1) ''E1'' ''2024-01-01'' ''10:00'' 60 (Some 15) ''none'' 0]
      = []"
  by code_simp

subsection \<open>The reminder callback as a filter\<close>

lemma tick_filter: "tick L now rems evs = map (note_of L) (filter (due L now rems) evs)"
  by (induction evs) (simp_all add: due_def)

lemma note_of_inj: "note_of L a = note_of L b \<Longrightarrow> a = b"
  by (simp add: note_of_def)

lemma already_iff:
  "already L rems ev \<longleftrightarrow>
     (\<exists>r \<in> set rems. key r = (id_ev ev, format L (remindAt L ev) FORMAT_DEFAULT))"
  by (simp add: already_def list_ex_iff key_def)

lemma key_note_of: "key (note_of L ev) = (id_ev ev, format L (remindAt L ev) FORMAT_DEFAULT)"
  by (simp add: key_def note_of_def)

lemma tick_keys_distinct:
  assumes "distinct (map id_ev evs)"
  shows "distinct (map key (tick L now rems evs))"
proof -
  have "map key (tick L now rems evs)
        = map (\<lambda>e. (id_ev e, format L (remindAt L e) FORMAT_DEFAULT)) (filter (due L now rems) evs)"
    by (simp add: tick_filter key_note_of comp_def)
  moreover have "distinct (map id_ev (filter (due L now rems) evs))"
    using assms by (rule distinct_map_filter)
  then have "distinct (map (\<lambda>e. (id_ev e, format L (remindAt L e) FORMAT_DEFAULT))
                         (filter (due L now rems) evs))"
    by (simp add: distinct_map inj_on_def)
  ultimately show ?thesis by simp
qed

lemma tick_keys_fresh: "key ` set (tick L now rems evs) \<inter> key ` set rems = {}"
  by (auto simp: tick_filter key_note_of due_def already_iff)

lemma tick_again: "tick L now (rems @ tick L now rems evs) evs = []"
proof -
  have "\<not> due L now (rems @ tick L now rems evs) e" if "e \<in> set evs" for e
  proof
    assume d: "due L now (rems @ tick L now rems evs) e"
    then have "\<not> already L rems e" by (simp add: due_def already_def)
    with d have "due L now rems e" by (simp add: due_def)
    with that have "note_of L e \<in> set (tick L now rems evs)" by (simp add: tick_filter)
    then have "already L (rems @ tick L now rems evs) e"
      unfolding already_iff using key_note_of [of L e] by auto
    with d show False by (simp add: due_def)
  qed
  then show ?thesis by (simp add: tick_filter filter_empty_conv)
qed

lemma dismissReminder_keys_distinct:
  "distinct (map key (reminders s)) \<Longrightarrow> distinct (map key (reminders (dismissReminder s i m)))"
  by (simp add: dismissReminder_def distinct_map_filter)

subsection \<open>C1: when a tick emits\<close>

text \<open>
  C1, as stated, fails at \<open>now = remindAt\<close>: the callback tests
  \<^verbatim>\<open>now.isAfter(remindAt)\<close>, which is strict.  The event starts at 10:00 with a
  reminder of 10 minutes, so \<open>remindAt\<close> is 09:50:00.000 (1704102600000 ms); at
  that instant \<open>remindAt \<le> now < eventStart\<close> holds, no notification exists, and
  the tick emits nothing.
\<close>

theorem tick_at_remindAt_counterexample:
  "0 < reminder (mkEvent (Num 1) ''E1'' ''2024-01-01'' ''10:00'' 60 (Some 15) ''none'' 10)
   \<and> valueOf (remindAt utc (mkEvent (Num 1) ''E1'' ''2024-01-01'' ''10:00'' 60 (Some 15) ''none'' 10))
       \<le> valueOf (1704102600000, ''UTC'')
   \<and> valueOf (1704102600000, ''UTC'')
       < valueOf (startOf utc (mkEvent (Num 1) ''E1'' ''2024-01-01'' ''10:00'' 60 (Some 15) ''none'' 10))
   \<and> \<not> already utc [] (mkEvent (Num 1) ''E1'' ''2024-01-01'' ''10:00'' 60 (Some 15) ''none'' 10)
   \<and> tick utc (1704102600000, ''UTC'') []
        [mkEvent (Num 1) ''E1'' ''2024-01-01'' ''10:00'' 60 (Some 15) ''none'' 10] = []"
  by code_simp

text \<open>
  C1, amended.  For every event of the collection with \<open>reminder > 0\<close>, a tick at
  instant \<open>now\<close> emits the notification of that event exactly when
  \<open>eventStart - reminder minutes < now < eventStart\<close> (both strict) and no
  notification exists whose id is the event's and whose message is the formatted
  remind-at instant; a tick at \<open>now = remindAt\<close> does not emit it.
\<close>

theorem tick_emits_iff:
  assumes "ev \<in> set evs" and "reminder ev > 0"
  shows "(note_of L ev \<in> set (tick L now rems evs) \<longleftrightarrow>
            valueOf (startOf L ev) - reminder ev * 60000 < valueOf now
            \<and> valueOf now < valueOf (startOf L ev)
            \<and> \<not> (\<exists>r \<in> set rems. id_rem r = id_ev ev
                      \<and> message r = format L (remindAt L ev) FORMAT_DEFAULT))
         \<and> (valueOf now = valueOf (startOf L ev) - reminder ev * 60000 \<longrightarrow>
              note_of L ev \<notin> set (tick L now rems evs))"
proof -
  have "note_of L ev \<in> set (tick L now rems evs) \<longleftrightarrow> due L now rems ev"
    using assms(1) by (auto simp: tick_filter dest: note_of_inj)
  moreover have "due L now rems ev \<longleftrightarrow>
            valueOf (startOf L ev) - reminder ev * 60000 < valueOf now
            \<and> valueOf now < valueOf (startOf L ev)
            \<and> \<not> (\<exists>r \<in> set rems. id_rem r = id_ev ev
                      \<and> message r = format L (remindAt L ev) FORMAT_DEFAULT)"
    using assms(2)
    by (simp add: due_def isAfter_def isBefore_def remindAt_def subtract_minute_def
          valueOf_def already_def list_ex_iff)
  ultimately show ?thesis by simp
qed

text \<open>One millisecond after 09:50 the notification of the 10:00 event is emitted.\<close>

theorem tick_emits_iff_witness:
  "note_of utc (mkEvent (Num 1) ''E1'' ''2024-01-01'' ''10:00'' 60 (Some 15) ''none'' 10)
     \<in> set (tick utc (1704102600001, ''UTC'') []
               [mkEvent (Num 1) ''E1'' ''2024-01-01'' ''10:00'' 60 (Some 15) ''none'' 10])
   \<and> message (note_of utc (mkEvent (Num 1) ''E1'' ''2024-01-01'' ''10:00'' 60 (Some 15) ''none'' 10))
     = ''2024-01-01T09:50:00Z''"
proof -
  have a: "mkEvent (Num 1) ''E1'' ''2024-01-01'' ''10:00'' 60 (Some 15) ''none'' 10
             \<in> set [mkEvent (Num 1) ''E1'' ''2024-01-01'' ''10:00'' 60 (Some 15) ''none'' 10]"
    by simp
  have b: "0 < reminder (mkEvent (Num 1) ''E1'' ''2024-01-01'' ''10:00'' 60 (Some 15) ''none'' 10)"
    by (simp add: mkEvent_def)
  have c: "valueOf (startOf utc (mkEvent (Num 1) ''E1'' ''2024-01-01'' ''10:00'' 60 (Some 15) ''none'' 10))
             - reminder (mkEvent (Num 1) ''E1'' ''2024-01-01'' ''10:00'' 60 (Some 15) ''none'' 10) * 60000
             < valueOf (1704102600001, ''UTC'')
           \<and> valueOf (1704102600001, ''UTC'')
             < valueOf (startOf utc (mkEvent (Num 1) ''E1'' ''2024-01-01'' ''10:00'' 60 (Some 15) ''none'' 10))"
    by code_simp
  have d: "message (note_of utc (mkEvent (Num 1) ''E1'' ''2024-01-01'' ''10:00'' 60 (Some 15) ''none'' 10))
             = ''2024-01-01T09:50:00Z''"
    by code_simp
  from tick_emits_iff [OF a b, of utc "(1704102600001, ''UTC'')" "[]"] c d
  show ?thesis by simp
qed

subsection \<open>C8: no duplicate notifications, idempotent tick\<close>

text \<open>
  C8, as stated, fails: the list can hold two notifications with the same event id
  and the same remind-at instant.

  \<^item> In \<open>collision_run\<close> the third weekly occurrence got the id
    \<^verbatim>\<open>Date.now() + 3\<close> and the event added 3 ms later the id \<^verbatim>\<open>Date.now()\<close>,
    the same number; both are to be reminded of at 09:00, and one run of the
    callback appends a notification for each: the duplicate test reads the list of
    the render, which holds neither.

  \<^item> In \<open>rezoned_run\<close> the one stored event keeps its id and its instant when it
    is moved from 10:00 \<^verbatim>\<open>UTC\<close> to 11:00 \<^verbatim>\<open>Europe/Paris\<close>, but
    \<^verbatim>\<open>remindAt.format()\<close> now prints the instant with the offset \<^verbatim>\<open>+01:00\<close>; the
    duplicate test compares the printed strings, so the next run of the callback
    appends a second notification for the same id and the same instant.
\<close>

theorem duplicate_notifications_counterexample:
  "map key (reminders collision_run)
     = [(Num 1704000000003, ''2024-01-22T09:00:00Z''), (Num 1704000000003, ''2024-01-22T09:00:00Z'')]
   \<and> map id_ev (events rezoned_run) = [Num 1]
   \<and> map key (reminders rezoned_run)
     = [(Num 1, ''2024-01-01T09:50:00Z''), (Num 1, ''2024-01-01T10:50:00+01:00'')]
   \<and> map (instant_key zoned) (reminders rezoned_run)
     = [(Num 1, 1704102600000), (Num 1, 1704102600000)]"
  by code_simp

text \<open>
  C8, amended.  The pair the code compares is (event id, \<^verbatim>\<open>remindAt.format()\<close>),
  the remind-at instant as printed in the event's zone.  When the stored events
  have pairwise distinct ids and the notification list has no two entries with the
  same such pair, the list after a run of the callback has none either, and
  dismissing a notification keeps a list without such a pair so.  For every state,
  a second run of the callback with the same \<open>now\<close>, the same events and the list
  the first run produced emits nothing and leaves the state as it is.
\<close>

theorem tick_state_distinct_keys_idempotent:
  "(distinct (map id_ev (events s)) \<and> distinct (map key (reminders s)) \<longrightarrow>
      distinct (map key (reminders (tick_state L now s))))
   \<and> (distinct (map key (reminders s)) \<longrightarrow>
      distinct (map key (reminders (dismissReminder s i m))))
   \<and> tick L now (reminders (tick_state L now s)) (events (tick_state L now s)) = []
   \<and> tick_state L now (tick_state L now s) = tick_state L now s"
proof -
  have 1: "distinct (map key (reminders (tick_state L now s)))"
    if "distinct (map id_ev (events s))" and "distinct (map key (reminders s))"
    using that(2) tick_keys_distinct [OF that(1), of L now "reminders s"]
      tick_keys_fresh [of L now "reminders s" "events s"]
    by (simp add: tick_state_def Int_commute)
  have 2: "tick L now (reminders (tick_state L now s)) (events (tick_state L now s)) = []"
    by (simp add: tick_state_def tick_again)
  from 2 have 3: "tick_state L now (tick_state L now s) = tick_state L now s"
    by (simp add: tick_state_def)
  have 4: "distinct (map key (reminders (dismissReminder s i m)))"
    if "distinct (map key (reminders s))"
    using that by (rule dismissReminder_keys_distinct)
  from 1 2 3 4 show ?thesis by blast
qed

text \<open>
  Two events with reminders, at 09:55: the first run emits the notification of
  the 10:00 event (the 12:00 event is not due), the list has no duplicate, and the
  second run emits nothing.
\<close>

theorem tick_state_distinct_keys_idempotent_witness:
  "map key (reminders (tick_state utc (1704102900000, ''UTC'')
      (mkState [mkEvent (Num 1) ''E1'' ''2024-01-01'' ''10:00'' 60 (Some 15) ''none'' 10,
                mkEvent (Num 2) ''E2'' ''2024-01-01'' ''12:00'' 60 (Some 15) ''none'' 30]
         (mkEvent Undefined [] ''2024-01-01'' ''09:00'' 60 (Some 15) ''none'' 0) Null)))
     = [(Num 1, ''2024-01-01T09:50:00Z'')]
   \<and> distinct (map key (reminders (tick_state utc (1704102900000, ''UTC'')
      (mkState [mkEvent (Num 1) ''E1'' ''2024-01-01'' ''10:00'' 60 (Some 15) ''none'' 10,
                mkEvent (Num 2) ''E2'' ''2024-01-01'' ''12:00'' 60 (Some 15) ''none'' 30]
         (mkEvent Undefined [] ''2024-01-01'' ''09:00'' 60 (Some 15) ''none'' 0) Null))))
   \<and> tick_state utc (1704102900000, ''UTC'') (tick_state utc (1704102900000, ''UTC'')
      (mkState [mkEvent (Num 1) ''E1'' ''2024-01-01'' ''10:00'' 60 (Some 15) ''none'' 10,
                mkEvent (Num 2) ''E2'' ''2024-01-01'' ''12:00'' 60 (Some 15) ''none'' 30]
         (mkEvent Undefined [] ''2024-01-01'' ''09:00'' 60 (Some 15) ''none'' 0) Null))
     = tick_state utc (1704102900000, ''UTC'')
      (mkState [mkEvent (Num 1) ''E1'' ''2024-01-01'' ''10:00'' 60 (Some 15) ''none'' 10,
                mkEvent (Num 2) ''E2'' ''2024-01-01'' ''12:00'' 60 (Some 15) ''none'' 30]
         (mkEvent Undefined [] ''2024-01-01'' ''09:00'' 60 (Some 15) ''none'' 0) Null)"
proof -
  let ?s = "mkState [mkEvent (Num 1) ''E1'' ''2024-01-01'' ''10:00'' 60 (Some 15) ''none'' 10,
                mkEvent (Num 2) ''E2'' ''2024-01-01'' ''12:00'' 60 (Some 15) ''none'' 30]
         (mkEvent Undefined [] ''2024-01-01'' ''09:00'' 60 (Some 15) ''none'' 0) Null"
  have a: "distinct (map id_ev (events ?s))"
    by (simp add: mkState_def mkEvent_def)
  have b: "distinct (map key (reminders ?s))"
    by (simp add: mkState_def)
  have c: "map key (reminders (tick_state utc (1704102900000, ''UTC'') ?s))
     = [(Num 1, ''2024-01-01T09:50:00Z'')]"
    by code_simp
  note t = tick_state_distinct_keys_idempotent [of ?s utc "(1704102900000, ''UTC'')"]
  from t a b have d: "distinct (map key (reminders (tick_state utc (1704102900000, ''UTC'') ?s)))"
    by blast
  from t have e: "tick_state utc (1704102900000, ''UTC'') (tick_state utc (1704102900000, ''UTC'') ?s)
                  = tick_state utc (1704102900000, ''UTC'') ?s"
    by blast
  show ?thesis
    by (intro conjI c d e)
qed

subsection \<open>The availability loop\<close>

lemma slot_loop_map:
  "slot_loop L ne evs d e cursor (map (\<lambda>c. format L c ''HH:mm'') cs)
   = map (\<lambda>c. format L c ''HH:mm'') (slot_cursors L ne evs d e cursor cs)"
proof (induction L ne evs d e cursor cs rule: slot_cursors.induct)
  case (1 L ne evs d e cursor cs)
  let ?cond = "isBefore (add_minute cursor (duration ne)) e \<or> isSame (add_minute cursor (duration ne)) e"
  let ?f = "\<lambda>c. format L c ''HH:mm''"
  show ?case
  proof (cases ?cond)
    case False
    have "slot_loop L ne evs d e cursor (map ?f cs) = map ?f cs"
      using False by (subst slot_loop.simps) simp
    moreover have "slot_cursors L ne evs d e cursor cs = cs"
      using False by (subst slot_cursors.simps) simp
    ultimately show ?thesis by simp
  next
    case True
    define test where "test = candidate d (format L cursor ''HH:mm'') (duration ne) (buffer ne) (timezone ne)"
    define cs' where "cs' = (if checkConflicts L test evs = [] then cs @ [cursor] else cs)"
    have a: "slot_cursors L ne evs d e cursor cs =
            (if length cs' \<ge> 6 then cs' else slot_cursors L ne evs d e (add_minute cursor 30) cs')"
      using True by (subst slot_cursors.simps) (simp add: Let_def cs'_def test_def)
    have b: "slot_loop L ne evs d e cursor (map ?f cs) =
            (if length cs' \<ge> 6 then map ?f cs'
             else slot_loop L ne evs d e (add_minute cursor 30) (map ?f cs'))"
      using True
      by (subst slot_loop.simps) (simp add: Let_def cs'_def test_def)
    show ?thesis
    proof (cases "length cs' \<ge> 6")
      case True
      with a b show ?thesis by simp
    next
      case False
      from "1.IH" [OF \<open>?cond\<close> test_def cs'_def False] a b False
      show ?thesis by simp
    qed
  qed
qed

lemma generateAvailabilities_map:
  "generateAvailabilities L s d = map (\<lambda>c. format L c ''HH:mm'') (slotCursors L s d)"
  using slot_loop_map [of L "newEvent s" "events s" d _ _ "[]"]
  by (simp add: generateAvailabilities_def slotCursors_def split: prod.splits)

lemma slot_cursors_inv:
  assumes "\<exists>k\<ge>0. valueOf cursor = s0 + k * (30 * 60000)"
    and "\<forall>c \<in> set cs. in_window s0 (valueOf e) (duration ne) c \<and> valueOf c < valueOf cursor"
    and "sorted_wrt (\<lambda>a b. valueOf a < valueOf b) cs"
    and "length cs < 6"
  shows "length (slot_cursors L ne evs d e cursor cs) \<le> 6
       \<and> sorted_wrt (\<lambda>a b. valueOf a < valueOf b) (slot_cursors L ne evs d e cursor cs)
       \<and> (\<forall>c \<in> set (slot_cursors L ne evs d e cursor cs). in_window s0 (valueOf e) (duration ne) c)"
  using assms
proof (induction L ne evs d e cursor cs rule: slot_cursors.induct)
  case (1 L ne evs d e cursor cs)
  let ?cond = "isBefore (add_minute cursor (duration ne)) e \<or> isSame (add_minute cursor (duration ne)) e"
  show ?case
  proof (cases ?cond)
    case False
    then have "slot_cursors L ne evs d e cursor cs = cs"
      by (subst slot_cursors.simps) simp
    with "1.prems" show ?thesis by auto
  next
    case True
    define test where "test = candidate d (format L cursor ''HH:mm'') (duration ne) (buffer ne) (timezone ne)"
    define cs' where "cs' = (if checkConflicts L test evs = [] then cs @ [cursor] else cs)"
    have fits: "valueOf cursor + duration ne * 60000 \<le> valueOf e"
      using True by (auto simp: isBefore_def isSame_def add_minute_def valueOf_def)
    from "1.prems"(1) have "s0 \<le> valueOf cursor" by auto
    with fits "1.prems"(1) have win: "in_window s0 (valueOf e) (duration ne) cursor"
      by (simp add: in_window_def)
    have len: "length cs' \<le> 6" using "1.prems"(4) by (simp add: cs'_def)
    have srt: "sorted_wrt (\<lambda>a b. valueOf a < valueOf b) cs'"
      using "1.prems"(2,3) by (simp add: cs'_def sorted_wrt_append)
    have allw: "\<forall>c \<in> set cs'. in_window s0 (valueOf e) (duration ne) c"
      using "1.prems"(2) win by (auto simp: cs'_def)
    have unfold: "slot_cursors L ne evs d e cursor cs =
            (if length cs' \<ge> 6 then cs' else slot_cursors L ne evs d e (add_minute cursor 30) cs')"
      using True by (subst slot_cursors.simps) (simp add: Let_def cs'_def test_def)
    show ?thesis
    proof (cases "length cs' \<ge> 6")
      case True
      with unfold len srt allw show ?thesis by simp
    next
      case False
      have step: "\<exists>k\<ge>0. valueOf (add_minute cursor 30) = s0 + k * (30 * 60000)"
      proof -
        from "1.prems"(1) obtain k where "k \<ge> 0" "valueOf cursor = s0 + k * (30 * 60000)" by auto
        then have "k + 1 \<ge> 0 \<and> valueOf (add_minute cursor 30) = s0 + (k + 1) * (30 * 60000)"
          by (simp add: add_minute_def valueOf_def algebra_simps)
        then show ?thesis by blast
      qed
      have below: "\<forall>c \<in> set cs'. in_window s0 (valueOf e) (duration ne) c
                     \<and> valueOf c < valueOf (add_minute cursor 30)"
        using "1.prems"(2) win
        by (auto simp: cs'_def add_minute_def valueOf_def)
      have "length cs' < 6" using False by simp
      from "1.IH" [OF \<open>?cond\<close> test_def cs'_def False step below srt this] unfold False
      show ?thesis by simp
    qed
  qed
qed


subsection \<open>C7: bounds of the availability search\<close>

text \<open>
  C7.  For every date, draft and event collection the strings returned by
  \<^verbatim>\<open>generateAvailabilities\<close> are the \<^verbatim>\<open>HH:mm\<close> formats of the cursors
  \<open>slotCursors\<close>; there are at most 6 of them; the cursors are strictly
  increasing; each cursor \<open>t\<close> satisfies \<open>start \<le> t\<close> and
  \<open>t + duration \<le> end\<close> for the work window (09:00 and 17:00 of the date in the
  draft's zone) and is a whole number of 30-minute steps after \<open>start\<close>.
\<close>

theorem generateAvailabilities_bounds:
  "generateAvailabilities L s d = map (\<lambda>c. format L c ''HH:mm'') (slotCursors L s d)
   \<and> length (generateAvailabilities L s d) \<le> 6
   \<and> sorted_wrt (\<lambda>a b. valueOf a < valueOf b) (slotCursors L s d)
   \<and> (\<forall>c \<in> set (slotCursors L s d).
        valueOf (fst (getWorkWindow L (newEvent s) d)) \<le> valueOf c
        \<and> valueOf c + duration (newEvent s) * 60000 \<le> valueOf (snd (getWorkWindow L (newEvent s) d))
        \<and> (\<exists>k\<ge>0. valueOf c = valueOf (fst (getWorkWindow L (newEvent s) d)) + k * (30 * 60000)))"
proof -
  obtain st en where w: "getWorkWindow L (newEvent s) d = (st, en)" by (cases "getWorkWindow L (newEvent s) d")
  have "\<exists>k\<ge>0. valueOf st = valueOf st + k * (30 * 60000)" by (intro exI [of _ 0]) simp
  from slot_cursors_inv [OF this, of "[]" en "newEvent s" L "events s" d]
  have "length (slotCursors L s d) \<le> 6
       \<and> sorted_wrt (\<lambda>a b. valueOf a < valueOf b) (slotCursors L s d)
       \<and> (\<forall>c \<in> set (slotCursors L s d). in_window (valueOf st) (valueOf en) (duration (newEvent s)) c)"
    by (simp add: slotCursors_def w)
  then show ?thesis
    by (simp add: generateAvailabilities_map w in_window_def)
qed

text \<open>
  The scenario of the specification: work window 09:00-17:00, duration 60, buffer
  15, one stored event 09:00-10:15.  The slots 09:00, 09:30 and 10:00 conflict;
  the six slots from 10:30 to 13:00 are returned and the search stops there.
\<close>

lemma slotCursors_six:
  "slotCursors utc
     (mkState [mkEvent (Num 1) ''E1'' ''2024-01-01'' ''09:00'' 60 (Some 15) ''none'' 0]
        (mkEvent Undefined [] ''2024-01-01'' ''09:00'' 60 (Some 15) ''none'' 0) Null)
     ''2024-01-01''
   = [(1704105000000, ''UTC''), (1704106800000, ''UTC''), (1704108600000, ''UTC''),
      (1704110400000, ''UTC''), (1704112200000, ''UTC''), (1704114000000, ''UTC'')]"
  by code_simp

theorem generateAvailabilities_bounds_witness:
  "generateAvailabilities utc
     (mkState [mkEvent (Num 1) ''E1'' ''2024-01-01'' ''09:00'' 60 (Some 15) ''none'' 0]
        (mkEvent Undefined [] ''2024-01-01'' ''09:00'' 60 (Some 15) ''none'' 0) Null)
     ''2024-01-01''
     = [''10:30'', ''11:00'', ''11:30'', ''12:00'', ''12:30'', ''13:00'']
   \<and> length (generateAvailabilities utc
       (mkState [mkEvent (Num 1) ''E1'' ''2024-01-01'' ''09:00'' 60 (Some 15) ''none'' 0]
          (mkEvent Undefined [] ''2024-01-01'' ''09:00'' 60 (Some 15) ''none'' 0) Null)
       ''2024-01-01'') \<le> 6
   \<and> sorted_wrt (\<lambda>a b. valueOf a < valueOf b)
       (slotCursors utc
         (mkState [mkEvent (Num 1) ''E1'' ''2024-01-01'' ''09:00'' 60 (Some 15) ''none'' 0]
            (mkEvent Undefined [] ''2024-01-01'' ''09:00'' 60 (Some 15) ''none'' 0) Null)
         ''2024-01-01'')
   \<and> getWorkWindow utc (mkEvent Undefined [] ''2024-01-01'' ''09:00'' 60 (Some 15) ''none'' 0)
        ''2024-01-01'' = ((1704099600000, ''UTC''), (1704128400000, ''UTC''))
   \<and> (1704114000000 :: int) + 60 * 60000 \<le> 1704128400000
   \<and> (1704114000000 :: int) = 1704099600000 + 8 * (30 * 60000)"
proof -
  let ?s = "mkState [mkEvent (Num 1) ''E1'' ''2024-01-01'' ''09:00'' 60 (Some 15) ''none'' 0]
              (mkEvent Undefined [] ''2024-01-01'' ''09:00'' 60 (Some 15) ''none'' 0) Null"
  note b = generateAvailabilities_bounds [of utc ?s "''2024-01-01''"]
  have f: "map (\<lambda>c. format utc c ''HH:mm'')
             [(1704105000000, ''UTC''), (1704106800000, ''UTC''), (1704108600000, ''UTC''),
              (1704110400000, ''UTC''), (1704112200000, ''UTC''), (1704114000000, ''UTC'')]
           = [''10:30'', ''11:00'', ''11:30'', ''12:00'', ''12:30'', ''13:00'']"
    by code_simp
  have a: "generateAvailabilities utc ?s ''2024-01-01''
           = [''10:30'', ''11:00'', ''11:30'', ''12:00'', ''12:30'', ''13:00'']"
    using b [THEN conjunct1] by (simp only: slotCursors_six f)
  have w: "getWorkWindow utc (mkEvent Undefined [] ''2024-01-01'' ''09:00'' 60 (Some 15) ''none'' 0)
        ''2024-01-01'' = ((1704099600000, ''UTC''), (1704128400000, ''UTC''))"
    by code_simp
  have n: "(1704114000000 :: int) + 60 * 60000 \<le> 1704128400000"
    "(1704114000000 :: int) = 1704099600000 + 8 * (30 * 60000)"
    by simp_all
  show ?thesis
    by (intro conjI a b [THEN conjunct2, THEN conjunct1]
          b [THEN conjunct2, THEN conjunct2, THEN conjunct1] w n)
qed

subsection \<open>C10: the availability search excludes no stored event\<close>






subsection \<open>The recurrence series\<close>

lemma nextDate_unit: "nextDate L ne base i = map_option (add_cal L base i) (repeat_unit (repeat ne))"
  by (simp add: nextDate_def repeat_unit_def)

lemma for_occurrences_eq:
  "for_occurrences L clock ne toAdd base is acc =
     acc @ (case repeat_unit (repeat ne) of None \<Rightarrow> []
            | Some u \<Rightarrow> map (\<lambda>i. toAdd\<lparr>id_ev := Num (clock (nat i) + i),
                                      date := format L (add_cal L base i u) ''YYYY-MM-DD''\<rparr>) is)"
  by (induction "is" arbitrary: acc) (simp_all add: nextDate_unit split: option.splits)

lemma series_eq:
  "series L clock ne =
     ne\<lparr>id_ev := Num (clock 0), status := Some ''confirmed''\<rparr>
     # (case repeat_unit (repeat ne) of None \<Rightarrow> []
        | Some u \<Rightarrow> map (occurrence L clock ne u) [1, 2, 3, 4, 5])"
  by (simp add: series_def Let_def for_occurrences_eq occurrence_def repeat_unit_def)

lemma length_series: "length (series L clock ne) = 1 \<or> length (series L clock ne) = 6"
  by (simp add: series_eq split: option.splits)


lemma handleAdd_availabilities:
  "fst (handleAdd L clock (s\<lparr>availabilities := a\<rparr>)) = fst (handleAdd L clock s)"
  "events (snd (handleAdd L clock (s\<lparr>availabilities := a\<rparr>))) = events (snd (handleAdd L clock s))"
  by (simp_all add: handleAdd_def closeForm_def Let_def)

subsection \<open>C3: edit and delete with an unknown id\<close>

text \<open>
  C3, as stated, fails: the source has no not-found error.  Deleting the event
  with id 99 from a store that holds only the event with id 1 ends normally with
  the state unchanged, and \<^verbatim>\<open>handleAdd\<close> with \<^verbatim>\<open>editEventId\<close> 99 ends through the
  edit branch (the form is closed) with the store unchanged.
\<close>

theorem unknown_id_counterexample:
  "confirmDelete (handleDelete
      (mkState [mkEvent (Num 1) ''E1'' ''2024-01-01'' ''10:00'' 60 (Some 15) ''none'' 0]
         (mkEvent Undefined [] ''2024-01-01'' ''09:00'' 60 (Some 15) ''none'' 0) Null)
      (mkEvent (Num 99) ''Ghost'' ''2024-01-01'' ''13:00'' 60 (Some 15) ''none'' 0))
   = Inr (mkState [mkEvent (Num 1) ''E1'' ''2024-01-01'' ''10:00'' 60 (Some 15) ''none'' 0]
         (mkEvent Undefined [] ''2024-01-01'' ''09:00'' 60 (Some 15) ''none'' 0) Null)
   \<and> fst (handleAdd utc (fixed_clock 1704000000000)
      (mkState [mkEvent (Num 1) ''E1'' ''2024-01-01'' ''10:00'' 60 (Some 15) ''none'' 0]
         (mkEvent (Num 99) ''Ghost'' ''2024-01-01'' ''13:00'' 60 (Some 15) ''none'' 0) (Num 99)))
     = Edited
   \<and> events (snd (handleAdd utc (fixed_clock 1704000000000)
      (mkState [mkEvent (Num 1) ''E1'' ''2024-01-01'' ''10:00'' 60 (Some 15) ''none'' 0]
         (mkEvent (Num 99) ''Ghost'' ''2024-01-01'' ''13:00'' 60 (Some 15) ''none'' 0) (Num 99))))
     = [mkEvent (Num 1) ''E1'' ''2024-01-01'' ''10:00'' 60 (Some 15) ''none'' 0]"
  by code_simp

text \<open>
  C3, amended.  When no stored event has the id \<open>i\<close>: deleting an event with id
  \<open>i\<close> ends normally and leaves the event collection as it is; \<^verbatim>\<open>handleAdd\<close> in
  edit mode for \<open>i\<close> never reports a not-found error and leaves the event
  collection as it is.
\<close>

theorem unknown_id_no_error:
  assumes "\<forall>e \<in> set (events s). id_ev e \<noteq> i"
  shows "(id_ev d = i \<longrightarrow>
            (\<exists>s'. confirmDelete (handleDelete s d) = Inr s' \<and> events s' = events s))
       \<and> (editEventId s = i \<and> truthy i \<longrightarrow>
            fst (handleAdd L clock s) \<noteq> Rejected NotFoundError
            \<and> events (snd (handleAdd L clock s)) = events s)"
proof (rule conjI; rule impI)
  assume "id_ev d = i"
  with assms have "filter (\<lambda>e. id_ev e \<noteq> id_ev d) (events s) = events s"
    by (simp add: filter_id_conv)
  then show "\<exists>s'. confirmDelete (handleDelete s d) = Inr s' \<and> events s' = events s"
    by (simp add: confirmDelete_def handleDelete_def Let_def)
next
  assume e: "editEventId s = i \<and> truthy i"
  with assms have
    "map (\<lambda>e. if id_ev e = editEventId s then (newEvent s)\<lparr>id_ev := editEventId s\<rparr> else e)
       (events s) = events s"
    by (simp add: map_idI)
  with e show "fst (handleAdd L clock s) \<noteq> Rejected NotFoundError
               \<and> events (snd (handleAdd L clock s)) = events s"
    by (simp add: handleAdd_def closeForm_def Let_def)
qed

theorem unknown_id_no_error_witness:
  "(\<exists>s'. confirmDelete (handleDelete
      (mkState [mkEvent (Num 1) ''E1'' ''2024-01-01'' ''10:00'' 60 (Some 15) ''none'' 0]
         (mkEvent (Num 99) ''Ghost'' ''2024-01-01'' ''13:00'' 60 (Some 15) ''none'' 0) (Num 99))
      (mkEvent (Num 99) ''Ghost'' ''2024-01-01'' ''13:00'' 60 (Some 15) ''none'' 0)) = Inr s'
      \<and> events s' = [mkEvent (Num 1) ''E1'' ''2024-01-01'' ''10:00'' 60 (Some 15) ''none'' 0])
   \<and> events (snd (handleAdd utc (fixed_clock 1704000000000)
      (mkState [mkEvent (Num 1) ''E1'' ''2024-01-01'' ''10:00'' 60 (Some 15) ''none'' 0]
         (mkEvent (Num 99) ''Ghost'' ''2024-01-01'' ''13:00'' 60 (Some 15) ''none'' 0) (Num 99))))
     = [mkEvent (Num 1) ''E1'' ''2024-01-01'' ''10:00'' 60 (Some 15) ''none'' 0]"
proof -
  let ?s = "mkState [mkEvent (Num 1) ''E1'' ''2024-01-01'' ''10:00'' 60 (Some 15) ''none'' 0]
         (mkEvent (Num 99) ''Ghost'' ''2024-01-01'' ''13:00'' 60 (Some 15) ''none'' 0) (Num 99)"
  have a: "\<forall>e \<in> set (events ?s). id_ev e \<noteq> Num 99"
    by (simp add: mkState_def mkEvent_def)
  have b: "id_ev (mkEvent (Num 99) ''Ghost'' ''2024-01-01'' ''13:00'' 60 (Some 15) ''none'' 0) = Num 99"
    "editEventId ?s = Num 99" "truthy (Num 99)"
    "events ?s = [mkEvent (Num 1) ''E1'' ''2024-01-01'' ''10:00'' 60 (Some 15) ''none'' 0]"
    by (simp_all add: mkState_def mkEvent_def)
  from unknown_id_no_error [OF a, of "mkEvent (Num 99) ''Ghost'' ''2024-01-01'' ''13:00'' 60 (Some 15) ''none'' 0"
      utc "fixed_clock 1704000000000"] b
  show ?thesis by simp
qed

subsection \<open>C5: a rejected add changes nothing in the store\<close>

text \<open>
  C5.  \<^verbatim>\<open>handleAdd\<close> with a missing title, date or time returns at once and
  leaves the whole state as it is; with a conflict it is rejected with the
  conflicts found; whenever it is rejected the event collection is unchanged; and
  when it ends through the add branch the collection is the old one followed by the
  whole series (the base alone, or the base and its 5 occurrences).  It ends through
  the add branch whenever title, date and time are there, no conflict is found and
  no event is being edited.
\<close>

theorem handleAdd_failure_atomic:
  "(title (newEvent s) = [] \<or> date (newEvent s) = [] \<or> time (newEvent s) = [] \<longrightarrow>
      handleAdd L clock s = (Rejected ValidationError, s))
   \<and> (title (newEvent s) \<noteq> [] \<and> date (newEvent s) \<noteq> [] \<and> time (newEvent s) \<noteq> []
       \<and> checkConflicts L (newEvent s) (filter (\<lambda>e. id_ev e \<noteq> editEventId s) (events s)) \<noteq> [] \<longrightarrow>
      fst (handleAdd L clock s)
        = Rejected (ConflictError (checkConflicts L (newEvent s)
                      (filter (\<lambda>e. id_ev e \<noteq> editEventId s) (events s)))))
   \<and> (\<forall>err. fst (handleAdd L clock s) = Rejected err \<longrightarrow>
         events (snd (handleAdd L clock s)) = events s)
   \<and> (\<forall>b. fst (handleAdd L clock s) = Added b \<longrightarrow>
         events (snd (handleAdd L clock s)) = events s @ series L clock (newEvent s)
         \<and> hd (series L clock (newEvent s)) = b
         \<and> (length (series L clock (newEvent s)) = 1 \<or> length (series L clock (newEvent s)) = 6))
   \<and> (title (newEvent s) \<noteq> [] \<and> date (newEvent s) \<noteq> [] \<and> time (newEvent s) \<noteq> []
       \<and> checkConflicts L (newEvent s) (filter (\<lambda>e. id_ev e \<noteq> editEventId s) (events s)) = []
       \<and> \<not> truthy (editEventId s) \<longrightarrow>
      fst (handleAdd L clock s) = Added (hd (series L clock (newEvent s)))
      \<and> events (snd (handleAdd L clock s)) = events s @ series L clock (newEvent s))"
  using length_series [of L clock "newEvent s"]
  by (simp add: handleAdd_def Let_def closeForm_def series_eq)

text \<open>
  A draft at 10:30 against the stored event 10:00-11:15 is rejected with the
  conflict and the store keeps its one event; a draft without a title is rejected
  with the state untouched.
\<close>

theorem handleAdd_failure_atomic_witness:
  "fst (handleAdd utc (fixed_clock 1704000000000)
      (mkState [mkEvent (Num 1) ''E1'' ''2024-01-01'' ''10:00'' 60 (Some 15) ''none'' 0]
         (mkEvent Undefined ''New'' ''2024-01-01'' ''10:30'' 60 (Some 15) ''weekly'' 0) Null))
     = Rejected (ConflictError [\<lparr>conflictWith = ''E1''\<rparr>])
   \<and> events (snd (handleAdd utc (fixed_clock 1704000000000)
      (mkState [mkEvent (Num 1) ''E1'' ''2024-01-01'' ''10:00'' 60 (Some 15) ''none'' 0]
         (mkEvent Undefined ''New'' ''2024-01-01'' ''10:30'' 60 (Some 15) ''weekly'' 0) Null)))
     = [mkEvent (Num 1) ''E1'' ''2024-01-01'' ''10:00'' 60 (Some 15) ''none'' 0]
   \<and> handleAdd utc (fixed_clock 1704000000000)
      (mkState [mkEvent (Num 1) ''E1'' ''2024-01-01'' ''10:00'' 60 (Some 15) ''none'' 0]
         (mkEvent Undefined [] ''2024-01-01'' ''13:00'' 60 (Some 15) ''weekly'' 0) Null)
     = (Rejected ValidationError,
        mkState [mkEvent (Num 1) ''E1'' ''2024-01-01'' ''10:00'' 60 (Some 15) ''none'' 0]
         (mkEvent Undefined [] ''2024-01-01'' ''13:00'' 60 (Some 15) ''weekly'' 0) Null)"
proof -
  let ?s = "mkState [mkEvent (Num 1) ''E1'' ''2024-01-01'' ''10:00'' 60 (Some 15) ''none'' 0]
         (mkEvent Undefined ''New'' ''2024-01-01'' ''10:30'' 60 (Some 15) ''weekly'' 0) Null"
  let ?v = "mkState [mkEvent (Num 1) ''E1'' ''2024-01-01'' ''10:00'' 60 (Some 15) ''none'' 0]
         (mkEvent Undefined [] ''2024-01-01'' ''13:00'' 60 (Some 15) ''weekly'' 0) Null"
  have a: "fst (handleAdd utc (fixed_clock 1704000000000) ?s)
           = Rejected (ConflictError [\<lparr>conflictWith = ''E1''\<rparr>])"
    by code_simp
  have b: "events ?s = [mkEvent (Num 1) ''E1'' ''2024-01-01'' ''10:00'' 60 (Some 15) ''none'' 0]"
    by (simp add: mkState_def)
  have c: "title (newEvent ?v) = []"
    by (simp add: mkState_def mkEvent_def)
  from handleAdd_failure_atomic [of ?s utc "fixed_clock 1704000000000"] a b
  have "events (snd (handleAdd utc (fixed_clock 1704000000000) ?s))
        = [mkEvent (Num 1) ''E1'' ''2024-01-01'' ''10:00'' 60 (Some 15) ''none'' 0]"
    by simp
  moreover from handleAdd_failure_atomic [of ?v utc "fixed_clock 1704000000000"] c
  have "handleAdd utc (fixed_clock 1704000000000) ?v = (Rejected ValidationError, ?v)"
    by blast
  ultimately show ?thesis using a by simp
qed

subsection \<open>C6: the weekly series\<close>



subsection \<open>C9: editing a repeating event\<close>

text \<open>
  In edit mode with a truthy \<^verbatim>\<open>editEventId\<close>, a valid and conflict-free draft
  replaces the events with that id in place and the store keeps its length.
\<close>

lemma handleAdd_edit:
  assumes "title (newEvent s) \<noteq> []" and "date (newEvent s) \<noteq> []" and "time (newEvent s) \<noteq> []"
    and "truthy (editEventId s)"
    and "checkConflicts L (newEvent s) (filter (\<lambda>e. id_ev e \<noteq> editEventId s) (events s)) = []"
  shows "fst (handleAdd L clock s) = Edited"
    and "events (snd (handleAdd L clock s))
         = map (\<lambda>e. if id_ev e = editEventId s then (newEvent s)\<lparr>id_ev := editEventId s\<rparr> else e)
             (events s)"
    and "length (events (snd (handleAdd L clock s))) = length (events s)"
  using assms by (simp_all add: handleAdd_def closeForm_def)

text \<open>
  C9 (the code departs from the claim).  \<^verbatim>\<open>if (editEventId)\<close> tests the id for
  truthiness, so editing the stored event whose id is 0 takes the add branch: the
  weekly event E0 is edited (\<^verbatim>\<open>handleEdit\<close>) and saved unchanged
  (\<^verbatim>\<open>handleAdd\<close>); the conflict check leaves E0 out, the run ends as an add, E0
  stays, and a new base with 5 occurrences is appended: the store grows from 1 to
  7 events.
\<close>

theorem handleAdd_edit_id_zero_expands:
  "fst (handleAdd utc (fixed_clock 1704000000000)
      (handleEdit utc
         (mkState [mkEvent (Num 0) ''E0'' ''2024-01-01'' ''10:00'' 60 (Some 15) ''weekly'' 0]
            (mkEvent Undefined [] ''2024-01-01'' ''09:00'' 60 (Some 15) ''none'' 0) Null)
         (mkEvent (Num 0) ''E0'' ''2024-01-01'' ''10:00'' 60 (Some 15) ''weekly'' 0)))
    = Added (mkEvent (Num 1704000000000) ''E0'' ''2024-01-01'' ''10:00'' 60 (Some 15) ''weekly'' 0)
  \<and> map (\<lambda>e. (id_ev e, date e))
      (events (snd (handleAdd utc (fixed_clock 1704000000000)
        (handleEdit utc
           (mkState [mkEvent (Num 0) ''E0'' ''2024-01-01'' ''10:00'' 60 (Some 15) ''weekly'' 0]
              (mkEvent Undefined [] ''2024-01-01'' ''09:00'' 60 (Some 15) ''none'' 0) Null)
           (mkEvent (Num 0) ''E0'' ''2024-01-01'' ''10:00'' 60 (Some 15) ''weekly'' 0)))))
    = [(Num 0, ''2024-01-01''), (Num 1704000000000, ''2024-01-01''),
       (Num 1704000000001, ''2024-01-08''), (Num 1704000000002, ''2024-01-15''),
       (Num 1704000000003, ''2024-01-22''), (Num 1704000000004, ''2024-01-29''),
       (Num 1704000000005, ''2024-02-05'')]"
proof -
  let ?E = "mkEvent (Num 0) ''E0'' ''2024-01-01'' ''10:00'' 60 (Some 15) ''weekly'' 0"
  let ?s0 = "mkState [?E] (mkEvent Undefined [] ''2024-01-01'' ''09:00'' 60 (Some 15) ''none'' 0) Null"
  have ed: "handleEdit utc ?s0 ?E
            = (mkState [?E] ?E (Num 0))\<lparr>availabilities := generateAvailabilities utc ?s0 (date ?E)\<rparr>"
    by (simp add: handleEdit_def mkState_def mkEvent_def)
  have "fst (handleAdd utc (fixed_clock 1704000000000) (mkState [?E] ?E (Num 0)))
          = Added (mkEvent (Num 1704000000000) ''E0'' ''2024-01-01'' ''10:00'' 60 (Some 15) ''weekly'' 0)
        \<and> map (\<lambda>e. (id_ev e, date e))
            (events (snd (handleAdd utc (fixed_clock 1704000000000) (mkState [?E] ?E (Num 0)))))
          = [(Num 0, ''2024-01-01''), (Num 1704000000000, ''2024-01-01''),
             (Num 1704000000001, ''2024-01-08''), (Num 1704000000002, ''2024-01-15''),
             (Num 1704000000003, ''2024-01-22''), (Num 1704000000004, ''2024-01-29''),
             (Num 1704000000005, ''2024-02-05'')]"
    by code_simp
  then show ?thesis
    by (simp only: ed handleAdd_availabilities)
qed

end
